theory Spec2Isabelle
  imports Complex_Main "HOL-Library.Sublist"
begin

section \<open>Python values\<close>

text \<open>
  A Python \<open>float\<close> is a finite number, one of the two infinities, or NaN.  Finite
  floats are modelled by exact rationals: the rounding of binary floating point is not
  part of the model, the special values and their comparison rules are.
\<close>

datatype pyfloat = NaN | NInf | Fin rat | PInf

text \<open>\<open>fle x y\<close> is Python's \<open>x <= y\<close>, \<open>flt x y\<close> is \<open>x < y\<close>; every comparison
  with NaN is false.\<close>

fun fle :: "pyfloat \<Rightarrow> pyfloat \<Rightarrow> bool" where
  "fle NaN _ = False"
| "fle _ NaN = False"
| "fle NInf _ = True"
| "fle (Fin a) NInf = False"
| "fle (Fin a) (Fin b) = (a \<le> b)"
| "fle (Fin a) PInf = True"
| "fle PInf PInf = True"
| "fle PInf _ = False"

fun flt :: "pyfloat \<Rightarrow> pyfloat \<Rightarrow> bool" where
  "flt NaN _ = False"
| "flt _ NaN = False"
| "flt NInf NInf = False"
| "flt NInf _ = True"
| "flt (Fin a) NInf = False"
| "flt (Fin a) (Fin b) = (a < b)"
| "flt (Fin a) PInf = True"
| "flt PInf _ = False"

definition isnan :: "pyfloat \<Rightarrow> bool" where
  "isnan x = (x = NaN)"

text \<open>
  An argument of the classifier is declared \<open>Optional[float]\<close>, but the code guards
  \<open>float(x)\<close> with \<open>try\<close>, so any object may arrive.  A value is modelled by what the
  code observes of it: whether it is \<open>None\<close>, what \<open>float(x)\<close> gives (a float, or an
  exception) and the text that an f-string prints for it.
  \<^item> \<open>Numeric f s\<close>: \<open>float(x)\<close> is \<open>f\<close> and \<open>str(x)\<close> is \<open>s\<close>
    (the int \<open>120\<close> is \<open>Numeric (Fin 120) ''120''\<close>);
  \<^item> \<open>NonNumeric s\<close>: \<open>float(x)\<close> raises and \<open>str(x)\<close> is \<open>s\<close>
    (the string \<open>"abc"\<close> is \<open>NonNumeric ''abc''\<close>).
\<close>

datatype pyval = PyNone | Numeric pyfloat string | NonNumeric string

datatype error = ValueError | OverflowError

text \<open>Python's \<open>round(x)\<close> on a finite float rounds to the nearest integer, ties to the
  even one.\<close>

definition py_round :: "rat \<Rightarrow> int" where
  "py_round x =
     (let f = \<lfloor>x\<rfloor>; d = x - of_int f
      in if d < 1 / 2 then f
         else if 1 / 2 < d then f + 1
         else if even f then f else f + 1)"

text \<open>\<open>int(round(a))\<close>: \<open>round\<close> raises ValueError on NaN and OverflowError on an
  infinity.\<close>

fun int_round :: "pyfloat \<Rightarrow> error + int" where
  "int_round NaN = Inl ValueError"
| "int_round NInf = Inl OverflowError"
| "int_round PInf = Inl OverflowError"
| "int_round (Fin r) = Inr (py_round r)"

section \<open>decision\_engine.py\<close>

definition LEVEL_NAMES :: "string list" where
  "LEVEL_NAMES = [''Normal'', ''Moderate'', ''Unhealthy'', ''Hazardous'']"

text \<open>The category branch of \<open>_aqi_to_level\<close>, after \<open>cat = int(round(a))\<close>.\<close>

definition cat_to_level :: "int \<Rightarrow> nat" where
  "cat_to_level cat =
     (if cat \<le> 1 then 0
      else if cat = 2 then 1
      else if cat = 3 then 2
      else if cat = 4 then 2
      else 3)"

text \<open>\<open>_aqi_to_level\<close> on a value that \<open>float()\<close> has converted to \<open>a\<close>.\<close>

definition aqi_float_to_level :: "pyfloat \<Rightarrow> error + nat" where
  "aqi_float_to_level a =
     (if fle a (Fin 5) then
        (case int_round a of Inl e \<Rightarrow> Inl e | Inr cat \<Rightarrow> Inr (cat_to_level cat))
      else if fle a (Fin 50) then Inr 0
      else if fle a (Fin 100) then Inr 1
      else if fle a (Fin 200) then Inr 2
      else Inr 3)"

fun aqi_to_level :: "pyval \<Rightarrow> error + nat" where
  "aqi_to_level PyNone = Inr 0"
| "aqi_to_level (NonNumeric s) = Inr 0"
| "aqi_to_level (Numeric a s) = aqi_float_to_level a"

definition pm25_float_to_level :: "pyfloat \<Rightarrow> nat" where
  "pm25_float_to_level p =
     (if fle p (Fin 12.0) then 0
      else if fle p (Fin 35.4) then 1
      else if fle p (Fin 55.4) then 2
      else 3)"

fun pm25_to_level :: "pyval \<Rightarrow> nat" where
  "pm25_to_level PyNone = 0"
| "pm25_to_level (NonNumeric s) = 0"
| "pm25_to_level (Numeric p s) = pm25_float_to_level p"

text \<open>Decimal text of an integer, as an f-string prints it.\<close>

definition digit_char :: "nat \<Rightarrow> char" where
  "digit_char d = char_of (48 + d)"

function str_nat :: "nat \<Rightarrow> string" where
  "str_nat n = (if n < 10 then [digit_char n] else str_nat (n div 10) @ [digit_char (n mod 10)])"
  by pat_completeness auto
termination
  by (relation "measure id") auto

declare str_nat.simps [simp del]

definition str_int :: "int \<Rightarrow> string" where
  "str_int i = (if i < 0 then CHR ''-'' # str_nat (nat (- i)) else str_nat (nat i))"

text \<open>The micro sign U+00B5 of the unit in the particulate reason string.\<close>

definition micro :: char where
  "micro = CHR 0xB5"

text \<open>
  \<open>_reason_strings\<close>.  The \<open>else\<close> branch of the \<open>try\<close> is not covered by its
  \<open>except\<close>, so an exception of \<open>int(round(a))\<close> leaves the function.  The f-string
  evaluates \<open>int(round(a))\<close> before \<open>_aqi_to_level(a)\<close>.
\<close>

definition aqi_part :: "string \<Rightarrow> pyfloat \<Rightarrow> error + string" where
  "aqi_part label a =
     (case int_round a of
        Inl e \<Rightarrow> Inl e
      | Inr k \<Rightarrow>
          (case aqi_float_to_level a of
             Inl e \<Rightarrow> Inl e
           | Inr l \<Rightarrow> Inr (label @ str_int k @ '' ('' @ LEVEL_NAMES ! l @ '')'')))"

definition aqi_reason :: "pyval \<Rightarrow> error + string" where
  "aqi_reason aqi =
     (case aqi of
        PyNone \<Rightarrow> Inr ''AQI=missing''
      | NonNumeric s \<Rightarrow> Inr ''AQI=invalid''
      | Numeric a s \<Rightarrow>
          if fle a (Fin 5) then aqi_part ''AQI(category)='' a
          else aqi_part ''AQI(index)='' a)"

definition pm25_text :: "pyval \<Rightarrow> string" where
  "pm25_text v = (case v of PyNone \<Rightarrow> ''None'' | Numeric p s \<Rightarrow> s | NonNumeric s \<Rightarrow> s)"

definition pm25_reason :: "pyval \<Rightarrow> string" where
  "pm25_reason pm25 =
     (if pm25 \<noteq> PyNone
      then ''PM2.5='' @ pm25_text pm25 @ '' '' @ [micro] @ ''g/m3 (''
             @ LEVEL_NAMES ! pm25_to_level pm25 @ '')''
      else ''PM2.5=missing'')"

definition reason_strings :: "pyval \<Rightarrow> pyval \<Rightarrow> error + string list" where
  "reason_strings aqi pm25 =
     (case aqi_reason aqi of
        Inl e \<Rightarrow> Inl e
      | Inr part \<Rightarrow> Inr [part, pm25_reason pm25])"

definition base_recommendations :: "nat \<Rightarrow> string list" where
  "base_recommendations lvl =
     (if lvl = 0 then
        [''Outdoor activities are safe for most people.'',
         ''No special precautions needed for healthy individuals.'',
         ''Vulnerable groups may still follow usual care (asthma meds).'']
      else if lvl = 1 then
        [''Unusually sensitive people should consider reducing prolonged or heavy exertion outdoors.'',
         ''Keep windows closed during heavy traffic or dust events.'',
         ''Consider indoor light activity instead of vigorous outdoor exercise.'']
      else if lvl = 2 then
        [''Avoid vigorous outdoor exercise; prefer indoor exercise with good filtration.'',
         ''People with respiratory or cardiovascular conditions should follow their action plans and limit outdoor time.'',
         ''Consider using an N95/FFP2 mask when outdoors in crowded or polluted areas.'']
      else
        [''Stay indoors and keep windows and doors closed where possible.'',
         ''Use indoor air cleaners (HEPA) or portable filters if available.'',
         ''Vulnerable people (children, elderly, pregnant, chronic disease) should avoid all outdoor exertion.''])"

text \<open>The strings the two pollutant-specific adjustments of \<open>interpret\<close> test and append.\<close>

definition rec_consider_mask :: string where
  "rec_consider_mask = ''Consider using an N95/FFP2 mask when outdoors in crowded or polluted areas.''"

definition rec_use_mask :: string where
  "rec_use_mask = ''Use an N95/FFP2 mask when you must go outside; cloth masks offer limited PM2.5 protection.''"

definition rec_avoid_roads :: string where
  "rec_avoid_roads = ''Avoid activities near busy roads, construction, or open burning.''"

definition rec_action_plans :: string where
  "rec_action_plans = ''People with respiratory or cardiovascular conditions should follow their action plans and limit outdoor time.''"

definition rec_follow_medical :: string where
  "rec_follow_medical = ''Follow medical action plans if you have asthma or heart disease; keep rescue meds at hand.''"

text \<open>The block \<open>if pm25_level >= 2\<close> of \<open>interpret\<close>.\<close>

definition pm25_adjust :: "nat \<Rightarrow> string list \<Rightarrow> string list" where
  "pm25_adjust pm25_level recs =
     (if 2 \<le> pm25_level
      then (if rec_consider_mask \<notin> set recs then recs @ [rec_use_mask] else recs) @ [rec_avoid_roads]
      else recs)"

text \<open>The block \<open>if aqi_level >= 2\<close> of \<open>interpret\<close>.\<close>

definition aqi_adjust :: "nat \<Rightarrow> string list \<Rightarrow> string list" where
  "aqi_adjust aqi_level recs =
     (if 2 \<le> aqi_level
      then (if rec_action_plans \<notin> set recs then recs @ [rec_follow_medical] else recs)
      else recs)"

text \<open>
  The deduplication loop of \<open>interpret\<close>: the second argument is \<open>deduped\<close>, whose elements
  are the set \<open>seen\<close>; the loop breaks once \<open>deduped\<close> holds six items.
\<close>

fun dedupe_loop :: "string list \<Rightarrow> string list \<Rightarrow> string list" where
  "dedupe_loop [] deduped = deduped"
| "dedupe_loop (r # rs) deduped =
     (let deduped' = (if r \<notin> set deduped then deduped @ [r] else deduped)
      in if 6 \<le> length deduped' then deduped' else dedupe_loop rs deduped')"

definition recommendations_for :: "nat \<Rightarrow> nat \<Rightarrow> string list" where
  "recommendations_for aqi_level pm25_level =
     dedupe_loop
       (aqi_adjust aqi_level
          (pm25_adjust pm25_level (base_recommendations (max aqi_level pm25_level)))) []"

record interp =
  risk_level :: string
  score :: nat
  reasons :: "string list"
  recommendations :: "string list"
  explanation :: string
  out_city :: "string option"
  out_timestamp :: "string option"

text \<open>\<open>if city:\<close> and \<open>if timestamp:\<close> attach the field when the argument is neither
  \<open>None\<close> nor the empty string.\<close>

definition truthy :: "string option \<Rightarrow> string option" where
  "truthy x = (case x of None \<Rightarrow> None | Some s \<Rightarrow> if s = [] then None else Some s)"

text \<open>\<open>interpret\<close> (the name is a reserved word of the prover, hence the suffix).\<close>

definition interpret_py ::
  "pyval \<Rightarrow> pyval \<Rightarrow> string option \<Rightarrow> string option \<Rightarrow> error + interp" where
  "interpret_py aqi pm25 ts cty =
     (case aqi_to_level aqi of
        Inl e \<Rightarrow> Inl e
      | Inr aqi_level \<Rightarrow>
          (let pm25_level = pm25_to_level pm25;
               lvl = max aqi_level pm25_level
           in case reason_strings aqi pm25 of
                Inl e \<Rightarrow> Inl e
              | Inr rs \<Rightarrow>
                  Inr \<lparr> risk_level = LEVEL_NAMES ! lvl,
                        score = lvl,
                        reasons = rs,
                        recommendations = recommendations_for aqi_level pm25_level,
                        explanation =
                          ''Air quality assessed as '' @ LEVEL_NAMES ! lvl
                          @ '' based on AQI and PM2.5. ''
                          @ ''Higher pollutant determines the risk level; see reasons.'',
                        out_city = truthy cty,
                        out_timestamp = truthy ts \<rparr>))"

section \<open>historical\_analytics.py\<close>

text \<open>
  Float arithmetic on the special values follows IEEE 754 as numpy applies it (no
  exception on infinities or NaN); on finite values it is exact.
\<close>

fun fneg :: "pyfloat \<Rightarrow> pyfloat" where
  "fneg NaN = NaN"
| "fneg NInf = PInf"
| "fneg PInf = NInf"
| "fneg (Fin a) = Fin (- a)"

fun fabs :: "pyfloat \<Rightarrow> pyfloat" where
  "fabs NaN = NaN"
| "fabs NInf = PInf"
| "fabs PInf = PInf"
| "fabs (Fin a) = Fin \<bar>a\<bar>"

fun fadd :: "pyfloat \<Rightarrow> pyfloat \<Rightarrow> pyfloat" where
  "fadd NaN _ = NaN"
| "fadd _ NaN = NaN"
| "fadd PInf NInf = NaN"
| "fadd NInf PInf = NaN"
| "fadd PInf _ = PInf"
| "fadd _ PInf = PInf"
| "fadd NInf _ = NInf"
| "fadd _ NInf = NInf"
| "fadd (Fin a) (Fin b) = Fin (a + b)"

definition fsub :: "pyfloat \<Rightarrow> pyfloat \<Rightarrow> pyfloat" where
  "fsub x y = fadd x (fneg y)"

text \<open>Division; a zero divisor is taken as positive zero.\<close>

fun fdiv :: "pyfloat \<Rightarrow> pyfloat \<Rightarrow> pyfloat" where
  "fdiv NaN _ = NaN"
| "fdiv _ NaN = NaN"
| "fdiv (Fin a) (Fin b) =
     (if b = 0 then (if a = 0 then NaN else if 0 < a then PInf else NInf) else Fin (a / b))"
| "fdiv (Fin a) _ = Fin 0"
| "fdiv PInf (Fin b) = (if b < 0 then NInf else PInf)"
| "fdiv NInf (Fin b) = (if b < 0 then PInf else NInf)"
| "fdiv _ _ = NaN"

text \<open>\<open>x != y\<close> on floats: true as soon as one side is NaN.\<close>

definition fne :: "pyfloat \<Rightarrow> pyfloat \<Rightarrow> bool" where
  "fne x y = (isnan x \<or> isnan y \<or> x \<noteq> y)"

text \<open>
  A numeric pandas series is a list of floats in which NaN is the missing entry.
  \<open>pd.to_numeric(series, errors="coerce")\<close> turns every entry that is absent or does
  not convert into NaN.
\<close>

definition to_numeric :: "pyval list \<Rightarrow> pyfloat list" where
  "to_numeric series =
     map (\<lambda>v. case v of PyNone \<Rightarrow> NaN | NonNumeric s \<Rightarrow> NaN | Numeric f s \<Rightarrow> f) series"

definition dropna :: "pyfloat list \<Rightarrow> pyfloat list" where
  "dropna series = filter (\<lambda>x. \<not> isnan x) series"

definition fillna :: "pyfloat \<Rightarrow> pyfloat list \<Rightarrow> pyfloat list" where
  "fillna v series = map (\<lambda>x. if isnan x then v else x) series"

text \<open>\<open>Series.count()\<close>: the number of entries that are not missing.\<close>

definition count_s :: "pyfloat list \<Rightarrow> nat" where
  "count_s series = length (dropna series)"

text \<open>\<open>Series.sum()\<close> and \<open>Series.mean()\<close> skip the missing entries; the mean of
  nothing is NaN.\<close>

definition sum_s :: "pyfloat list \<Rightarrow> pyfloat" where
  "sum_s series = foldl fadd (Fin 0) (dropna series)"

definition mean_s :: "pyfloat list \<Rightarrow> pyfloat" where
  "mean_s series =
     (if dropna series = [] then NaN
      else fdiv (sum_s series) (Fin (of_nat (count_s series))))"

text \<open>\<open>Series.min()\<close>, \<open>Series.max()\<close> and \<open>Series.median()\<close>, over the entries that
  are not missing; NaN when there is none.\<close>

definition fmin :: "pyfloat \<Rightarrow> pyfloat \<Rightarrow> pyfloat" where
  "fmin x y = (if fle x y then x else y)"

definition fmax :: "pyfloat \<Rightarrow> pyfloat \<Rightarrow> pyfloat" where
  "fmax x y = (if fle y x then x else y)"

definition min_s :: "pyfloat list \<Rightarrow> pyfloat" where
  "min_s series = (case dropna series of [] \<Rightarrow> NaN | x # xs \<Rightarrow> foldl fmin x xs)"

definition max_s :: "pyfloat list \<Rightarrow> pyfloat" where
  "max_s series = (case dropna series of [] \<Rightarrow> NaN | x # xs \<Rightarrow> foldl fmax x xs)"

fun insert_sorted :: "pyfloat \<Rightarrow> pyfloat list \<Rightarrow> pyfloat list" where
  "insert_sorted x [] = [x]"
| "insert_sorted x (y # ys) = (if fle x y then x # y # ys else y # insert_sorted x ys)"

definition sort_s :: "pyfloat list \<Rightarrow> pyfloat list" where
  "sort_s xs = foldr insert_sorted xs []"

definition median_s :: "pyfloat list \<Rightarrow> pyfloat" where
  "median_s series =
     (let vals = sort_s (dropna series); n = length vals
      in if n = 0 then NaN
         else if odd n then vals ! (n div 2)
         else fdiv (fadd (vals ! (n div 2 - 1)) (vals ! (n div 2))) (Fin 2))"

text \<open>\<open>DEFAULT_THRESHOLDS\<close>; a threshold dictionary is a map from \<open>"safe"\<close> and
  \<open>"hazard"\<close> to floats.\<close>

type_synonym thresholds = "string \<rightharpoonup> pyfloat"

definition DEFAULT_THRESHOLDS :: "string \<rightharpoonup> thresholds" where
  "DEFAULT_THRESHOLDS = map_of
     [(''aqi'', map_of [(''safe'', Fin 50), (''hazard'', Fin 200)]),
      (''pm2_5'', map_of [(''safe'', Fin 12.0), (''hazard'', Fin 55.4)]),
      (''pm10'', map_of [(''safe'', Fin 54.0), (''hazard'', Fin 254.0)]),
      (''o3'', map_of [(''safe'', Fin 70.0), (''hazard'', Fin 200.0)]),
      (''no2'', map_of [(''safe'', Fin 100.0), (''hazard'', Fin 400.0)]),
      (''so2'', map_of [(''safe'', Fin 20.0), (''hazard'', Fin 500.0)]),
      (''co'', map_of [(''safe'', Fin 1000.0), (''hazard'', Fin 10000.0)])]"

text \<open>\<open>_safe_count\<close>: \<open>(series > safe_threshold).sum() / len(series) * 100.0\<close>.\<close>

definition safe_count :: "pyfloat list \<Rightarrow> pyfloat \<Rightarrow> pyfloat" where
  "safe_count series safe_threshold =
     (if dropna series = [] then Fin 0
      else Fin (of_nat (length (filter (\<lambda>x. flt safe_threshold x) series))
                / of_nat (length series) * 100))"

text \<open>\<open>above.shift(1, fill_value=False)\<close>: every entry moves one place down, the
  first place is filled, the last entry falls off.\<close>

definition shift1 :: "bool \<Rightarrow> bool list \<Rightarrow> bool list" where
  "shift1 fill_value xs = take (length xs) (fill_value # xs)"

definition count_hazard_entries :: "pyfloat list \<Rightarrow> pyfloat \<Rightarrow> nat" where
  "count_hazard_entries series hazard_threshold =
     (let s = fillna NInf series;
          above = map (\<lambda>x. flt hazard_threshold x) s;
          edges = map (\<lambda>(prev, cur). \<not> prev \<and> cur) (zip (shift1 False above) above)
      in length (filter id edges))"

definition detect_trend :: "pyfloat list \<Rightarrow> string" where
  "detect_trend series =
     (let vals = dropna series; n = length vals
      in if n < 6 then ''no_change''
         else
           let third = max 1 (n div 3);
               first = take third vals;
               last_part = drop (n - third) vals;
               mean_first = mean_s first;
               mean_last = mean_s last_part
           in if isnan mean_first \<or> isnan mean_last then ''no_change''
              else
                let rel_change =
                      (if fne mean_first (Fin 0)
                       then fdiv (fsub mean_last mean_first) (fabs mean_first)
                       else Fin 0)
                in if 10 \<le> n \<and> fle (Fin 0.05) rel_change then ''worsening''
                   else if 10 \<le> n \<and> fle rel_change (Fin (- 0.05)) then ''improving''
                   else ''no_change'')"

record pollutant_summary =
  n_measurements :: nat
  min_v :: "pyfloat option"
  max_v :: "pyfloat option"
  mean_v :: "pyfloat option"
  median_v :: "pyfloat option"
  percent_above_safe :: "pyfloat option"
  hazard_entries :: "nat option"
  trend :: "string option"

text \<open>\<open>float(x) if not pd.isna(x) else None\<close>.\<close>

definition unless_na :: "pyfloat \<Rightarrow> pyfloat option" where
  "unless_na x = (if isnan x then None else Some x)"

text \<open>A threshold is used when it is there and is not NaN.\<close>

definition usable :: "pyfloat option \<Rightarrow> pyfloat option" where
  "usable th = (case th of None \<Rightarrow> None | Some t \<Rightarrow> if isnan t then None else Some t)"

definition analyze_pollutant ::
  "pyval list \<Rightarrow> string \<Rightarrow> thresholds option \<Rightarrow> pollutant_summary" where
  "analyze_pollutant series name thresholds_arg =
     (let thresholds =
            (case thresholds_arg of
               Some t \<Rightarrow> t
             | None \<Rightarrow>
                 (case DEFAULT_THRESHOLDS name of
                    Some t \<Rightarrow> t
                  | None \<Rightarrow> map_of [(''safe'', NaN), (''hazard'', NaN)]));
          safe_th = thresholds ''safe'';
          hazard_th = thresholds ''hazard'';
          s = to_numeric series;
          n = count_s s;
          result = \<lparr> n_measurements = n, min_v = None, max_v = None, mean_v = None,
                     median_v = None, percent_above_safe = None, hazard_entries = None,
                     trend = None \<rparr>
      in if n = 0 then result
         else result
               \<lparr> min_v := unless_na (min_s s),
                 max_v := unless_na (max_s s),
                 mean_v := unless_na (mean_s s),
                 median_v := unless_na (median_s s),
                 percent_above_safe := map_option (safe_count s) (usable safe_th),
                 hazard_entries := map_option (count_hazard_entries s) (usable hazard_th),
                 trend := Some (detect_trend s) \<rparr>)"

section \<open>history\_analyzer.py\<close>

text \<open>
  In the file the module docstring is opened and never closed; the functions are
  embedded as their text reads, with the docstring taken to end before the imports.

  A parsed timestamp is modelled by what the code observes of it: the instant (in
  nanoseconds, which orders timestamps and gives the span in days), the text of
  \<open>isoformat()\<close> and the text of \<open>str()\<close>.  A cell that \<open>pd.to_datetime\<close> could
  not parse is NaT, here \<open>None\<close>.
\<close>

record stamp =
  ns :: int
  iso :: string
  shown :: string

record row =
  r_timestamp :: "stamp option"
  r_city :: string
  r_aqi :: pyval
  r_pm2_5 :: pyval

text \<open>\<open>isna\<close> on a cell of a reading column: the cell is \<open>None\<close> or NaN.\<close>

definition isna :: "pyval \<Rightarrow> bool" where
  "isna v = (case v of PyNone \<Rightarrow> True | Numeric f s \<Rightarrow> isnan f | NonNumeric s \<Rightarrow> False)"

definition BAD_LEVELS :: "string set" where
  "BAD_LEVELS = {''Unhealthy'', ''Hazardous''}"

definition MODERATE_OR_WORSE_LEVELS :: "string set" where
  "MODERATE_OR_WORSE_LEVELS = {''Moderate'', ''Unhealthy'', ''Hazardous''}"

definition apply_interpret_row :: "row \<Rightarrow> error + interp" where
  "apply_interpret_row r =
     interpret_py (r_aqi r) (r_pm2_5 r) (map_option shown (r_timestamp r)) (Some (r_city r))"

text \<open>The rows of the city: \<open>df[df["city"] == city]\<close>.\<close>

definition city_rows :: "string \<Rightarrow> row list \<Rightarrow> row list" where
  "city_rows cty df = filter (\<lambda>r. r_city r = cty) df"

text \<open>\<open>mask_missing\<close>, row by row, and the rows kept by \<open>df_city.loc[~mask_missing]\<close>.\<close>

definition mask_missing :: "row \<Rightarrow> bool" where
  "mask_missing r = (r_timestamp r = None \<or> (isna (r_aqi r) \<and> isna (r_pm2_5 r)))"

definition count_dropped :: "row list \<Rightarrow> nat" where
  "count_dropped df_city = length (filter mask_missing df_city)"

definition retained :: "row list \<Rightarrow> row list" where
  "retained df_city = filter (\<lambda>r. \<not> mask_missing r) df_city"

text \<open>The first loop: one interpretation per kept row; an exception of \<open>interpret\<close>
  ends the whole analysis.\<close>

fun interpret_rows :: "row list \<Rightarrow> error + interp list" where
  "interpret_rows [] = Inr []"
| "interpret_rows (r # rs) =
     (case apply_interpret_row r of
        Inl e \<Rightarrow> Inl e
      | Inr out \<Rightarrow>
          (case interpret_rows rs of Inl e \<Rightarrow> Inl e | Inr outs \<Rightarrow> Inr (out # outs)))"

text \<open>The driver of one row, as the second loop (and again the worst-moment block)
  computes it.\<close>

definition driver_of :: "row \<Rightarrow> error + string" where
  "driver_of r =
     (case aqi_to_level (r_aqi r) of
        Inl e \<Rightarrow> Inl e
      | Inr a_level \<Rightarrow>
          (let p_level = pm25_to_level (r_pm2_5 r)
           in if p_level < a_level then Inr ''AQI''
              else if a_level < p_level then Inr ''PM2.5''
              else Inr ''Both''))"

fun drivers_of :: "row list \<Rightarrow> error + string list" where
  "drivers_of [] = Inr []"
| "drivers_of (r # rs) =
     (case driver_of r of
        Inl e \<Rightarrow> Inl e
      | Inr d \<Rightarrow> (case drivers_of rs of Inl e \<Rightarrow> Inl e | Inr ds \<Rightarrow> Inr (d # ds)))"

text \<open>\<open>Counter\<close>: the distinct items in the order of their first occurrence, each with
  its number of occurrences.\<close>

fun first_seen :: "'a list \<Rightarrow> 'a list" where
  "first_seen [] = []"
| "first_seen (x # xs) = x # first_seen (filter (\<lambda>y. y \<noteq> x) xs)"

definition counter :: "string list \<Rightarrow> (string \<times> nat) list" where
  "counter xs = map (\<lambda>k. (k, count_list xs k)) (first_seen xs)"

text \<open>\<open>float(c / total_measurements * 100) if total_measurements > 0 else 0.0\<close>.\<close>

definition pct_of :: "nat \<Rightarrow> nat \<Rightarrow> rat" where
  "pct_of c n_total = (if 0 < n_total then of_nat c / of_nat n_total * 100 else 0)"

definition count_in :: "string set \<Rightarrow> (string \<times> nat) list \<Rightarrow> nat" where
  "count_in levels level_counts =
     sum_list (map snd (filter (\<lambda>(lvl, cnt). lvl \<in> levels) level_counts))"

text \<open>Comparison of two timestamps; with NaT on a side it is false.\<close>

definition ts_lt :: "stamp option \<Rightarrow> stamp option \<Rightarrow> bool" where
  "ts_lt a b = (case (a, b) of (Some x, Some y) \<Rightarrow> ns x < ns y | _ \<Rightarrow> False)"

text \<open>\<open>Series.min()\<close> and \<open>Series.max()\<close> of the timestamp column; NaT is skipped, the
  first of equal instants is kept.\<close>

definition ts_min :: "row list \<Rightarrow> stamp option" where
  "ts_min rows =
     (case List.map_filter r_timestamp rows of
        [] \<Rightarrow> None
      | t # ts \<Rightarrow> Some (foldl (\<lambda>m x. if ns x < ns m then x else m) t ts))"

definition ts_max :: "row list \<Rightarrow> stamp option" where
  "ts_max rows =
     (case List.map_filter r_timestamp rows of
        [] \<Rightarrow> None
      | t # ts \<Rightarrow> Some (foldl (\<lambda>m x. if ns m < ns x then x else m) t ts))"

record worst_moment_entry =
  w_timestamp :: "string option"
  w_risk_level :: string
  w_reasons :: "string list"
  determined_by :: string

text \<open>The loop over the candidates: an entry replaces the chosen one when nothing is
  chosen yet or its timestamp is strictly earlier.\<close>

fun choose_earliest ::
  "(row \<times> interp) list \<Rightarrow> (row \<times> interp) option \<Rightarrow> (row \<times> interp) option" where
  "choose_earliest [] chosen = chosen"
| "choose_earliest (c # cs) chosen =
     (case chosen of
        None \<Rightarrow> choose_earliest cs (Some c)
      | Some ch \<Rightarrow>
          if ts_lt (r_timestamp (fst c)) (r_timestamp (fst ch))
          then choose_earliest cs (Some c)
          else choose_earliest cs chosen)"

definition worst_entry_of :: "(row \<times> interp) list \<Rightarrow> error + worst_moment_entry option" where
  "worst_entry_of entries =
     (if entries = [] then Inr None
      else
        let max_score = foldl max 0 (map (\<lambda>e. score (snd e)) entries);
            candidates = filter (\<lambda>e. score (snd e) = max_score) entries
        in case choose_earliest candidates None of
             None \<Rightarrow> Inr None
           | Some (orig_row, chosen) \<Rightarrow>
               (case driver_of orig_row of
                  Inl e \<Rightarrow> Inl e
                | Inr d \<Rightarrow>
                    Inr (Some \<lparr> w_timestamp = map_option iso (r_timestamp orig_row),
                                w_risk_level = risk_level chosen,
                                w_reasons = reasons chosen,
                                determined_by = d \<rparr>)))"

text \<open>
  \<open>format(x, ".1f")\<close> of a percentage: one decimal, the tenths rounded to the nearest
  (ties to even, on the exact value).
\<close>

definition fmt_1f :: "rat \<Rightarrow> string" where
  "fmt_1f x =
     (let t = py_round (\<bar>x\<bar> * 10)
      in (if x < 0 then ''-'' else []) @ str_nat (nat (t div 10)) @ ''.'' @ str_nat (nat (t mod 10)))"

text \<open>The \<open>.days\<close> of the difference of two timestamps.\<close>

definition days_between :: "stamp \<Rightarrow> stamp \<Rightarrow> int" where
  "days_between start end_t = (ns end_t - ns start) div 86400000000000"

text \<open>\<open>max(drivers_distribution.items(), key=count)\<close>: the first entry with the largest
  count.\<close>

fun max_by_count :: "(string \<times> nat \<times> rat) list \<Rightarrow> (string \<times> nat \<times> rat) \<Rightarrow> (string \<times> nat \<times> rat)" where
  "max_by_count [] best = best"
| "max_by_count (kv # kvs) best =
     (if fst (snd best) < fst (snd kv) then max_by_count kvs kv else max_by_count kvs best)"

definition opt_text :: "string option \<Rightarrow> string" where
  "opt_text x = (case x of None \<Rightarrow> ''None'' | Some s \<Rightarrow> s)"

definition summary_text ::
  "string \<Rightarrow> nat \<Rightarrow> stamp option \<Rightarrow> stamp option \<Rightarrow> rat \<Rightarrow> rat
     \<Rightarrow> worst_moment_entry option \<Rightarrow> (string \<times> nat \<times> rat) list \<Rightarrow> string" where
  "summary_text cty n_total p_start p_end moderate_share unhealthy_share
       worst_entry drivers_distr =
     (if n_total = 0
      then ''No valid measurements for '' @ cty @ '' in the provided file.''
      else
        let days_span =
              (case (p_start, p_end) of
                 (Some a, Some b) \<Rightarrow>
                   if iso a \<noteq> [] \<and> iso b \<noteq> [] then Some (days_between a b + 1) else None
               | _ \<Rightarrow> None);
            span_text =
              (case days_span of
                 Some d \<Rightarrow> if 0 < d then ''the last '' @ str_int d @ '' days''
                           else ''the analysed period''
               | None \<Rightarrow> ''the analysed period'');
            head = ''Over '' @ span_text @ '', Moderate or worse occurred ''
                   @ fmt_1f moderate_share @ ''% of the time; ''
                   @ ''Unhealthy or worse occurred '' @ fmt_1f unhealthy_share @ ''%.'';
            body =
              (case worst_entry of
                 Some w \<Rightarrow> head @ '' The worst recorded moment was on ''
                            @ opt_text (w_timestamp w) @ '' ('' @ w_risk_level w @ '').''
               | None \<Rightarrow> head @ '' No single worst moment identified.'');
            top = (case drivers_distr of
                     [] \<Rightarrow> ([], 0, 0)
                   | kv # kvs \<Rightarrow> max_by_count kvs kv);
            top_driver = fst top;
            top_pct = snd (snd top);
            driver_text =
              (if top_driver = ''AQI'' then ''AQI category ('' @ fmt_1f top_pct @ ''%)''
               else if top_driver = ''PM2.5'' then ''PM2.5 ('' @ fmt_1f top_pct @ ''%)''
               else ''both AQI and PM2.5 equally ('' @ fmt_1f top_pct @ ''%)'')
        in body @ '' The risk level was most often driven by '' @ driver_text @ ''.'')"

text \<open>
  The dictionary that \<open>analyze_city_from_csv\<close> returns, without the three
  \<open>top_bad_windows\<close> lists (the per-day ranking is not modelled).
\<close>

record history_summary =
  hs_city :: string
  total_measurements :: nat
  dropped_rows :: nat
  period_start :: "string option"
  period_end :: "string option"
  distribution :: "(string \<times> nat \<times> rat) list"
  moderate_or_worse_share_pct :: rat
  unhealthy_or_worse_share_pct :: rat
  drivers_distribution :: "(string \<times> nat \<times> rat) list"
  worst_moment :: "worst_moment_entry option"
  summary :: string

text \<open>
  \<open>analyze_city_from_csv\<close> on the table that \<open>pd.read_csv\<close> and \<open>pd.to_datetime\<close>
  have produced.  Reading the file and writing the JSON summary are outside the model.
\<close>

definition analyze_city_from_csv :: "string \<Rightarrow> row list \<Rightarrow> error + history_summary" where
  "analyze_city_from_csv cty df =
     (let df_all = city_rows cty df;
          dropped = count_dropped df_all;
          df_city = retained df_all;
          n_total = length df_city
      in case interpret_rows df_city of
           Inl e \<Rightarrow> Inl e
         | Inr interpretations \<Rightarrow>
             (case drivers_of df_city of
                Inl e \<Rightarrow> Inl e
              | Inr drivers \<Rightarrow>
                  (let level_counts = counter (map risk_level interpretations);
                       distr = map (\<lambda>(lvl, cnt). (lvl, cnt, pct_of cnt n_total)) level_counts;
                       unhealthy_share = pct_of (count_in BAD_LEVELS level_counts) n_total;
                       moderate_share =
                         pct_of (count_in MODERATE_OR_WORSE_LEVELS level_counts) n_total;
                       drivers_distr =
                         map (\<lambda>k. (k, count_list drivers k, pct_of (count_list drivers k) n_total))
                           [''AQI'', ''PM2.5'', ''Both''];
                       p_start = (if 0 < n_total then ts_min df_city else None);
                       p_end = (if 0 < n_total then ts_max df_city else None)
                   in case worst_entry_of (zip df_city interpretations) of
                        Inl e \<Rightarrow> Inl e
                      | Inr worst_entry \<Rightarrow>
                          Inr \<lparr> hs_city = cty,
                                total_measurements = n_total,
                                dropped_rows = dropped,
                                period_start = map_option iso p_start,
                                period_end = map_option iso p_end,
                                distribution = distr,
                                moderate_or_worse_share_pct = moderate_share,
                                unhealthy_or_worse_share_pct = unhealthy_share,
                                drivers_distribution = drivers_distr,
                                worst_moment = worst_entry,
                                summary =
                                  summary_text cty n_total p_start p_end moderate_share
                                    unhealthy_share worst_entry drivers_distr \<rparr>)))"

section \<open>Notions used to state the properties\<close>

text \<open>A reading is finite when it is a number other than NaN and the infinities; an
  absent or a non-numeric reading counts as finite here (nothing is rounded for it).\<close>

definition isfinite :: "pyfloat \<Rightarrow> bool" where
  "isfinite x = (case x of Fin r \<Rightarrow> True | _ \<Rightarrow> False)"

definition finite_reading :: "pyval \<Rightarrow> bool" where
  "finite_reading v = (case v of Numeric a s \<Rightarrow> isfinite a | _ \<Rightarrow> True)"



definition mean_q :: "rat list \<Rightarrow> rat" where
  "mean_q xs = sum_list xs / of_nat (length xs)"

definition rel_change :: "rat list \<Rightarrow> rat" where
  "rel_change vals =
     (let n = length vals;
          third = max 1 (n div 3);
          mean_first = mean_q (take third vals);
          mean_last = mean_q (drop (n - third) vals)
      in if mean_first = 0 then 0 else (mean_last - mean_first) / \<bar>mean_first\<bar>)"

text \<open>
  Rising edges of a series against a threshold: the positions whose value is above the
  threshold while the value before it is at or below it.  A missing value counts as
  minus infinity, and so does the value before the first position.
\<close>

definition value_at :: "pyfloat list \<Rightarrow> nat \<Rightarrow> pyfloat" where
  "value_at series i = (if isnan (series ! i) then NInf else series ! i)"

definition prev_value :: "pyfloat list \<Rightarrow> nat \<Rightarrow> pyfloat" where
  "prev_value series i = (if i = 0 then NInf else value_at series (i - 1))"

definition rising_edges :: "pyfloat list \<Rightarrow> pyfloat \<Rightarrow> nat" where
  "rising_edges series hazard =
     length (filter (\<lambda>i. fle (prev_value series i) hazard \<and> flt hazard (value_at series i))
               [0..<length series])"

text \<open>An entry of a raw series that is a number, not missing, and strictly above a
  threshold.\<close>

definition exceeds :: "pyfloat \<Rightarrow> pyval \<Rightarrow> bool" where
  "exceeds th v = (case v of Numeric f s \<Rightarrow> \<not> isnan f \<and> flt th f | _ \<Rightarrow> False)"

text \<open>Two rows of a table as \<open>pd.read_csv\<close> gives them (an empty cell is NaN): one with
  a timestamp and no reading, one with a reading and no parseable timestamp; and a row
  with both.\<close>

definition row_without_readings :: row where
  "row_without_readings =
     \<lparr> r_timestamp = Some \<lparr> ns = 0, iso = ''1970-01-01T00:00:00'', shown = ''1970-01-01 00:00:00'' \<rparr>,
       r_city = ''Oslo'', r_aqi = Numeric NaN ''nan'', r_pm2_5 = Numeric NaN ''nan'' \<rparr>"

definition row_without_timestamp :: row where
  "row_without_timestamp =
     \<lparr> r_timestamp = None, r_city = ''Oslo'',
       r_aqi = Numeric (Fin 3) ''3'', r_pm2_5 = Numeric (Fin 40) ''40.0'' \<rparr>"

definition row_complete :: row where
  "row_complete =
     \<lparr> r_timestamp = Some \<lparr> ns = 0, iso = ''1970-01-01T00:00:00'', shown = ''1970-01-01 00:00:00'' \<rparr>,
       r_city = ''Oslo'', r_aqi = Numeric (Fin 3) ''3'', r_pm2_5 = Numeric (Fin 40) ''40.0'' \<rparr>"

section \<open>Properties of the classifier\<close>

lemma py_round_of_int: "py_round (of_int c) = c"
  by (simp add: py_round_def Let_def)

lemma cat_to_level_le: "cat_to_level c \<le> 3"
  by (simp add: cat_to_level_def)

lemma aqi_float_to_level_le: "aqi_float_to_level a = Inr l \<Longrightarrow> l \<le> 3"
  by (auto simp: aqi_float_to_level_def cat_to_level_le split: if_splits sum.splits)

lemma aqi_to_level_le: "aqi_to_level v = Inr l \<Longrightarrow> l \<le> 3"
  by (cases v) (auto dest: aqi_float_to_level_le)

lemma pm25_to_level_le: "pm25_to_level v \<le> 3"
  by (cases v) (auto simp: pm25_float_to_level_def)

lemma aqi_reason_finite: "finite_reading v \<Longrightarrow> \<exists>t. aqi_reason v = Inr t"
  by (cases v) (auto simp: finite_reading_def isfinite_def aqi_reason_def aqi_part_def
      aqi_float_to_level_def split: pyfloat.splits)

lemma aqi_to_level_finite: "finite_reading v \<Longrightarrow> \<exists>l. aqi_to_level v = Inr l"
  by (cases v) (auto simp: finite_reading_def isfinite_def aqi_float_to_level_def
      split: pyfloat.splits)

lemma interpret_returns:
  "finite_reading aqi \<Longrightarrow> \<exists>out. interpret_py aqi pm25 ts cty = Inr out"
  using aqi_to_level_finite[of aqi] aqi_reason_finite[of aqi]
  by (auto simp: interpret_py_def reason_strings_def Let_def)

text \<open>\<open>interpret\<close> raises exactly on a primary reading that is NaN or infinite.\<close>

lemma interpret_raises_iff:
  "(\<exists>e. interpret_py aqi pm25 ts cty = Inl e) \<longleftrightarrow> \<not> finite_reading aqi"
  by (cases aqi)
    (auto simp: interpret_py_def reason_strings_def Let_def finite_reading_def isfinite_def
      aqi_reason_def aqi_part_def aqi_float_to_level_def split: pyfloat.splits sum.splits)

lemma interpret_fields:
  "interpret_py aqi pm25 ts cty = Inr out \<Longrightarrow>
     \<exists>la. aqi_to_level aqi = Inr la \<and> score out = max la (pm25_to_level pm25)
        \<and> risk_level out = LEVEL_NAMES ! score out
        \<and> recommendations out = recommendations_for la (pm25_to_level pm25)"
  by (auto simp: interpret_py_def Let_def split: sum.splits)

text \<open>
  Claim C2.  The two sub-level functions realise the documented breakpoints.  A primary
  reading that is a whole number \<open>c \<le> 5\<close> is read as a category: at most 1 gives Normal
  (level 0), 2 Moderate (1), 3 and 4 Unhealthy (2), 5 Hazardous (3).  A primary reading
  above 5 is an index: up to 50 Normal, up to 100 Moderate, up to 200 Unhealthy, above
  Hazardous.  The particulate reading: up to 12.0 Normal, up to 35.4 Moderate, up to 55.4
  Unhealthy, above Hazardous.  The last two conjuncts are the boundary values with their
  labels: categories 1 to 5, indices 120, 200 and 201, particulate 12, 35.4, 55.4 and
  55.41.
\<close>

theorem level_breakpoints:
  "(c \<le> 5 \<longrightarrow> aqi_to_level (Numeric (Fin (of_int c)) s) =
        Inr (if c \<le> 1 then 0 else if c = 2 then 1 else if c = 3 \<or> c = 4 then 2 else 3))
   \<and> (5 < a \<longrightarrow> aqi_to_level (Numeric (Fin a) s) =
        Inr (if a \<le> 50 then 0 else if a \<le> 100 then 1 else if a \<le> 200 then 2 else 3))
   \<and> pm25_to_level (Numeric (Fin p) s) =
        (if p \<le> 12 then 0 else if p \<le> 35.4 then 1 else if p \<le> 55.4 then 2 else 3)
   \<and> map (\<lambda>v. map_sum id ((!) LEVEL_NAMES) (aqi_to_level (Numeric (Fin v) s)))
          [1, 2, 3, 4, 5, 120, 200, 201]
      = map Inr [''Normal'', ''Moderate'', ''Unhealthy'', ''Unhealthy'', ''Hazardous'',
                 ''Unhealthy'', ''Unhealthy'', ''Hazardous'']
   \<and> map (\<lambda>v. LEVEL_NAMES ! pm25_to_level (Numeric (Fin v) s)) [12, 35.4, 55.4, 55.41]
      = [''Normal'', ''Moderate'', ''Unhealthy'', ''Hazardous'']"
proof -
  have cat: "c \<le> 5 \<longrightarrow> aqi_to_level (Numeric (Fin (of_int c)) s) =
        Inr (if c \<le> 1 then 0 else if c = 2 then 1 else if c = 3 \<or> c = 4 then 2 else 3)"
    by (auto simp: aqi_float_to_level_def cat_to_level_def py_round_of_int)
  have idx: "5 < a \<longrightarrow> aqi_to_level (Numeric (Fin a) s) =
        Inr (if a \<le> 50 then 0 else if a \<le> 100 then 1 else if a \<le> 200 then 2 else 3)"
    by (auto simp: aqi_float_to_level_def)
  have pm: "pm25_to_level (Numeric (Fin p) s) =
        (if p \<le> 12 then 0 else if p \<le> 35.4 then 1 else if p \<le> 55.4 then 2 else 3)"
    by (simp add: pm25_float_to_level_def)
  have r: "py_round 1 = 1" "py_round 2 = 2" "py_round 3 = 3" "py_round 4 = 4" "py_round 5 = 5"
    using py_round_of_int[of 1] py_round_of_int[of 2] py_round_of_int[of 3]
      py_round_of_int[of 4] py_round_of_int[of 5] by simp_all
  have b1: "map (\<lambda>v. map_sum id ((!) LEVEL_NAMES) (aqi_to_level (Numeric (Fin v) s)))
          [1, 2, 3, 4, 5, 120, 200, 201]
      = map Inr [''Normal'', ''Moderate'', ''Unhealthy'', ''Unhealthy'', ''Hazardous'',
                 ''Unhealthy'', ''Unhealthy'', ''Hazardous'']"
    by (simp add: aqi_float_to_level_def cat_to_level_def r LEVEL_NAMES_def)
  have b2: "map (\<lambda>v. LEVEL_NAMES ! pm25_to_level (Numeric (Fin v) s)) [12, 35.4, 55.4, 55.41]
      = [''Normal'', ''Moderate'', ''Unhealthy'', ''Hazardous'']"
    by (simp add: pm25_float_to_level_def LEVEL_NAMES_def)
  from cat idx pm b1 b2 show ?thesis by blast
qed

theorem level_breakpoints_witness:
  "(4::int) \<le> 5 \<and> aqi_to_level (Numeric (Fin 4) ''4'') = Inr 2
   \<and> (5::rat) < 201 \<and> aqi_to_level (Numeric (Fin 201) ''4'') = Inr 3
   \<and> pm25_to_level (Numeric (Fin 55.41) ''4'') = 3"
  using level_breakpoints[of 4 "''4''" 201 "55.41"] by simp

text \<open>
  Claim C1.  \<open>interpret\<close> returns for every pair of readings whose primary reading is
  absent, non-numeric or a finite number (the particulate reading is arbitrary).
  Whatever it returns has as score the larger of the two sub-levels, each of which is
  one of 0, 1, 2, 3, and as risk level the label of that score in the enumeration
  Normal = 0, Moderate = 1, Unhealthy = 2, Hazardous = 3.  Replacing the input whose
  sub-level is not above the other one leaves the score unchanged exactly when the new
  sub-level does not exceed the other input's sub-level.
\<close>

theorem interpret_level_is_max:
  "(finite_reading aqi \<longrightarrow> (\<exists>out. interpret_py aqi pm25 ts cty = Inr out))
   \<and> (\<forall>out. interpret_py aqi pm25 ts cty = Inr out \<longrightarrow>
        (\<exists>la. aqi_to_level aqi = Inr la
           \<and> la \<in> {0, 1, 2, 3} \<and> pm25_to_level pm25 \<in> {0, 1, 2, 3}
           \<and> score out = max la (pm25_to_level pm25)
           \<and> risk_level out
               = [''Normal'', ''Moderate'', ''Unhealthy'', ''Hazardous''] ! score out
           \<and> (\<forall>pm25' out'. pm25_to_level pm25 \<le> la \<longrightarrow>
                  interpret_py aqi pm25' ts cty = Inr out' \<longrightarrow>
                  (score out' = score out \<longleftrightarrow> pm25_to_level pm25' \<le> la))
           \<and> (\<forall>aqi' la' out'. la \<le> pm25_to_level pm25 \<longrightarrow>
                  interpret_py aqi' pm25 ts cty = Inr out' \<longrightarrow> aqi_to_level aqi' = Inr la' \<longrightarrow>
                  (score out' = score out \<longleftrightarrow> la' \<le> pm25_to_level pm25))))"
proof (intro conjI allI impI)
  assume "finite_reading aqi"
  then show "\<exists>out. interpret_py aqi pm25 ts cty = Inr out" by (rule interpret_returns)
next
  fix out
  assume ret: "interpret_py aqi pm25 ts cty = Inr out"
  then obtain la where la: "aqi_to_level aqi = Inr la"
    and sc: "score out = max la (pm25_to_level pm25)"
    and rl: "risk_level out = LEVEL_NAMES ! score out"
    using interpret_fields by blast
  have la3: "la \<le> 3" using la by (rule aqi_to_level_le)
  have lp3: "pm25_to_level pm25 \<le> 3" by (rule pm25_to_level_le)
  have "la \<in> {0, 1, 2, 3}" using la3 by auto
  moreover have "pm25_to_level pm25 \<in> {0, 1, 2, 3}" using lp3 by auto
  moreover have "risk_level out
      = [''Normal'', ''Moderate'', ''Unhealthy'', ''Hazardous''] ! score out"
    using rl by (simp add: LEVEL_NAMES_def)
  moreover have "\<forall>pm25' out'. pm25_to_level pm25 \<le> la \<longrightarrow>
      interpret_py aqi pm25' ts cty = Inr out' \<longrightarrow>
      (score out' = score out \<longleftrightarrow> pm25_to_level pm25' \<le> la)"
  proof (intro allI impI)
    fix pm25' out'
    assume dom: "pm25_to_level pm25 \<le> la"
      and ret': "interpret_py aqi pm25' ts cty = Inr out'"
    from interpret_fields[OF ret'] la
    have "score out' = max la (pm25_to_level pm25')" by auto
    with sc dom show "score out' = score out \<longleftrightarrow> pm25_to_level pm25' \<le> la" by auto
  qed
  moreover have "\<forall>aqi' la' out'. la \<le> pm25_to_level pm25 \<longrightarrow>
      interpret_py aqi' pm25 ts cty = Inr out' \<longrightarrow> aqi_to_level aqi' = Inr la' \<longrightarrow>
      (score out' = score out \<longleftrightarrow> la' \<le> pm25_to_level pm25)"
  proof (intro allI impI)
    fix aqi' la' out'
    assume dom: "la \<le> pm25_to_level pm25"
      and ret': "interpret_py aqi' pm25 ts cty = Inr out'"
      and la': "aqi_to_level aqi' = Inr la'"
    from interpret_fields[OF ret'] la'
    have "score out' = max la' (pm25_to_level pm25)" by auto
    with sc dom show "score out' = score out \<longleftrightarrow> la' \<le> pm25_to_level pm25" by auto
  qed
  ultimately show "\<exists>la. aqi_to_level aqi = Inr la
           \<and> la \<in> {0, 1, 2, 3} \<and> pm25_to_level pm25 \<in> {0, 1, 2, 3}
           \<and> score out = max la (pm25_to_level pm25)
           \<and> risk_level out
               = [''Normal'', ''Moderate'', ''Unhealthy'', ''Hazardous''] ! score out
           \<and> (\<forall>pm25' out'. pm25_to_level pm25 \<le> la \<longrightarrow>
                  interpret_py aqi pm25' ts cty = Inr out' \<longrightarrow>
                  (score out' = score out \<longleftrightarrow> pm25_to_level pm25' \<le> la))
           \<and> (\<forall>aqi' la' out'. la \<le> pm25_to_level pm25 \<longrightarrow>
                  interpret_py aqi' pm25 ts cty = Inr out' \<longrightarrow> aqi_to_level aqi' = Inr la' \<longrightarrow>
                  (score out' = score out \<longleftrightarrow> la' \<le> pm25_to_level pm25))"
    using la sc by blast
qed

theorem interpret_level_is_max_witness:
  "finite_reading (Numeric (Fin 120) ''120'')
   \<and> (\<exists>out. interpret_py (Numeric (Fin 120) ''120'') (Numeric (Fin 8) ''8'') None None = Inr out
          \<and> score out = 2 \<and> risk_level out = ''Unhealthy'')"
  using interpret_level_is_max[of "Numeric (Fin 120) ''120''" "Numeric (Fin 8) ''8''" None None]
  by (auto simp: finite_reading_def isfinite_def aqi_float_to_level_def pm25_float_to_level_def)













text \<open>
  Claim C4, evaluated.  A non-numeric particulate reading is not recorded as invalid:
  for \<open>interpret(None, "abc")\<close> the reasons are \<open>AQI=missing\<close> and the raw text with
  the label Normal, and the word \<open>invalid\<close> occurs in neither, whereas the same value
  as primary reading gives \<open>AQI=invalid\<close>.  And \<open>interpret\<close> raises on a primary
  reading that is NaN (ValueError, here for \<open>interpret(float("nan"), 40.0)\<close>) or
  infinite (OverflowError), from \<open>int(round(a))\<close>.
\<close>

theorem invalid_particulate_not_recorded:
  "map_sum id reasons (interpret_py PyNone (NonNumeric ''abc'') None None)
     = Inr [''AQI=missing'', ''PM2.5=abc '' @ [micro] @ ''g/m3 (Normal)'']
   \<and> \<not> sublist ''invalid'' ''AQI=missing''
   \<and> \<not> sublist ''invalid'' (''PM2.5=abc '' @ [micro] @ ''g/m3 (Normal)'')
   \<and> map_sum id reasons (interpret_py (NonNumeric ''abc'') PyNone None None)
     = Inr [''AQI=invalid'', ''PM2.5=missing'']
   \<and> interpret_py (Numeric NaN ''nan'') (Numeric (Fin 40) ''40.0'') None None = Inl ValueError
   \<and> interpret_py (Numeric PInf ''inf'') PyNone None None = Inl OverflowError
   \<and> interpret_py (Numeric NInf ''-inf'') PyNone None None = Inl OverflowError"
proof -
  have a: "map_sum id reasons (interpret_py PyNone (NonNumeric ''abc'') None None)
     = Inr [''AQI=missing'', ''PM2.5=abc '' @ [micro] @ ''g/m3 (Normal)'']"
    by (simp add: interpret_py_def reason_strings_def aqi_reason_def pm25_reason_def
        pm25_text_def LEVEL_NAMES_def Let_def)
  have b: "\<not> sublist ''invalid'' ''AQI=missing''"
    by (simp add: sublist_Cons_right)
  have c: "\<not> sublist ''invalid'' (''PM2.5=abc '' @ [micro] @ ''g/m3 (Normal)'')"
    by (simp add: sublist_Cons_right micro_def)
  have d: "map_sum id reasons (interpret_py (NonNumeric ''abc'') PyNone None None)
     = Inr [''AQI=invalid'', ''PM2.5=missing'']"
    by (simp add: interpret_py_def reason_strings_def aqi_reason_def pm25_reason_def Let_def)
  have e: "interpret_py (Numeric NaN ''nan'') (Numeric (Fin 40) ''40.0'') None None
             = Inl ValueError"
    by (simp add: interpret_py_def reason_strings_def aqi_reason_def aqi_part_def
        aqi_float_to_level_def Let_def)
  have f: "interpret_py (Numeric PInf ''inf'') PyNone None None = Inl OverflowError"
    by (simp add: interpret_py_def reason_strings_def aqi_reason_def aqi_part_def
        aqi_float_to_level_def Let_def)
  have g: "interpret_py (Numeric NInf ''-inf'') PyNone None None = Inl OverflowError"
    by (simp add: interpret_py_def aqi_float_to_level_def Let_def)
  from a b c d e f g show ?thesis by blast
qed

section \<open>Properties of the pollutant statistics\<close>









lemma edges_by_index:
  "length (filter id (map (\<lambda>(p, c). \<not> p \<and> c) (zip (shift1 b0 bs) bs)))
     = length (filter (\<lambda>i. \<not> (if i = 0 then b0 else bs ! (i - 1)) \<and> bs ! i) [0..<length bs])"
proof (induction bs arbitrary: b0)
  case Nil
  then show ?case by (simp add: shift1_def)
next
  case (Cons b bs)
  let ?g = "\<lambda>(p, c). \<not> p \<and> c"
  let ?P = "\<lambda>i. \<not> (if i = 0 then b0 else (b # bs) ! (i - 1)) \<and> (b # bs) ! i"
  have up: "[0..<length (b # bs)] = 0 # map Suc [0..<length bs]"
    by (simp add: upt_conv_Cons map_Suc_upt del: upt_Suc)
  have z: "zip (shift1 b0 (b # bs)) (b # bs) = (b0, b) # zip (shift1 b bs) bs"
    by (simp add: shift1_def)
  have L: "length (filter id (map ?g (zip (shift1 b0 (b # bs)) (b # bs))))
           = (if \<not> b0 \<and> b then 1 else 0) + length (filter id (map ?g (zip (shift1 b bs) bs)))"
    unfolding z by simp
  have R: "length (filter ?P [0..<length (b # bs)])
           = (if \<not> b0 \<and> b then 1 else 0) + length (filter ?P (map Suc [0..<length bs]))"
    unfolding up by simp
  have S: "length (filter ?P (map Suc [0..<length bs]))
        = length (filter (\<lambda>i. \<not> (if i = 0 then b else bs ! (i - 1)) \<and> bs ! i) [0..<length bs])"
    by (simp add: filter_map comp_def nth_Cons')
  show ?case
    by (simp only: L R S Cons.IH[of b])
qed

lemma no_edges_when_never_above:
  "\<forall>c\<in>set cs. \<not> c \<Longrightarrow> filter id (map (\<lambda>(p, c). \<not> p \<and> c) (zip ps cs)) = []"
  by (auto simp: filter_empty_conv dest: set_zip_rightD)

lemma not_flt_fle: "v \<noteq> NaN \<Longrightarrow> h \<noteq> NaN \<Longrightarrow> (\<not> flt h v) = fle v h"
  by (cases v; cases h) auto

lemma flt_NaN_left: "flt NaN v = False"
  by simp

lemma fle_NaN_right: "fle v NaN = False"
  by (cases v) simp_all

lemma value_at_not_NaN: "value_at series i \<noteq> NaN"
  by (simp add: value_at_def isnan_def)

lemma count_hazard_entries_rising:
  "count_hazard_entries series hazard = rising_edges series hazard"
proof (cases "hazard = NaN")
  case True
  have "filter id (map (\<lambda>(p, c). \<not> p \<and> c)
          (zip (shift1 False (map (\<lambda>x. flt hazard x) (fillna NInf series)))
               (map (\<lambda>x. flt hazard x) (fillna NInf series)))) = []"
    by (rule no_edges_when_never_above) (simp add: True)
  then have "count_hazard_entries series hazard = 0"
    unfolding count_hazard_entries_def Let_def by (simp only: list.size)
  moreover have "rising_edges series hazard = 0"
    by (simp add: rising_edges_def True fle_NaN_right)
  ultimately show ?thesis by simp
next
  case False
  let ?above = "map (\<lambda>x. flt hazard x) (fillna NInf series)"
  have len: "length ?above = length series" by (simp add: fillna_def)
  have nth: "?above ! i = flt hazard (value_at series i)" if "i < length series" for i
    using that by (simp add: fillna_def value_at_def)
  have F: "filter (\<lambda>i. \<not> (if i = 0 then False else ?above ! (i - 1)) \<and> ?above ! i) [0..<length series]
      = filter (\<lambda>i. fle (prev_value series i) hazard \<and> flt hazard (value_at series i))
          [0..<length series]"
  proof (rule filter_cong[OF refl])
    fix i assume "i \<in> set [0..<length series]"
    then have i: "i < length series" by simp
    show "(\<not> (if i = 0 then False else ?above ! (i - 1)) \<and> ?above ! i)
          = (fle (prev_value series i) hazard \<and> flt hazard (value_at series i))"
    proof (cases "i = 0")
      case True
      then show ?thesis using i False nth[of 0] by (cases hazard) (simp_all add: prev_value_def)
    next
      case nz: False
      then have "i - 1 < length series" using i by simp
      then show ?thesis
        using nz nth[OF i] nth[of "i - 1"] not_flt_fle[OF value_at_not_NaN False, of series "i - 1"]
        by (simp add: prev_value_def)
    qed
  qed
  have "count_hazard_entries series hazard
        = length (filter id (map (\<lambda>(p, c). \<not> p \<and> c) (zip (shift1 False ?above) ?above)))"
    unfolding count_hazard_entries_def Let_def ..
  also have "\<dots> = length (filter (\<lambda>i. \<not> (if i = 0 then False else ?above ! (i - 1)) \<and> ?above ! i)
                          [0..<length ?above])"
    by (rule edges_by_index)
  also have "\<dots> = length (filter (\<lambda>i. \<not> (if i = 0 then False else ?above ! (i - 1)) \<and> ?above ! i)
                          [0..<length series])"
    by (simp only: len)
  also have "\<dots> = rising_edges series hazard"
    unfolding rising_edges_def by (simp only: F)
  finally show ?thesis .
qed

lemma analyze_pollutant_some:
  assumes "count_s (to_numeric series) \<noteq> 0"
  shows "percent_above_safe (analyze_pollutant series name (Some t))
           = map_option (safe_count (to_numeric series)) (usable (t ''safe''))"
    and "hazard_entries (analyze_pollutant series name (Some t))
           = map_option (count_hazard_entries (to_numeric series)) (usable (t ''hazard''))"
    and "trend (analyze_pollutant series name (Some t)) = Some (detect_trend (to_numeric series))"
  using assms by (simp_all add: analyze_pollutant_def Let_def)

lemma analyze_pollutant_default:
  assumes "count_s (to_numeric series) \<noteq> 0" and "DEFAULT_THRESHOLDS name = Some t"
  shows "percent_above_safe (analyze_pollutant series name None)
           = map_option (safe_count (to_numeric series)) (usable (t ''safe''))"
  using assms by (simp add: analyze_pollutant_def Let_def)

lemma flt_NaN_right: "flt x NaN = False"
  by (cases x) simp_all

lemma exceeds_coerced:
  "flt th (case v of PyNone \<Rightarrow> NaN | NonNumeric s \<Rightarrow> NaN | Numeric f s \<Rightarrow> f) = exceeds th v"
  by (cases v) (auto simp: exceeds_def isnan_def flt_NaN_right)

lemma count_above_raw:
  "length (filter (\<lambda>x. flt th x) (to_numeric series)) = length (filter (exceeds th) series)"
proof -
  have "filter (\<lambda>x. flt th x) (to_numeric series)
        = map (\<lambda>v. case v of PyNone \<Rightarrow> NaN | NonNumeric s \<Rightarrow> NaN | Numeric f s \<Rightarrow> f)
            (filter (exceeds th) series)"
    unfolding to_numeric_def filter_map comp_def exceeds_coerced ..
  then show ?thesis by simp
qed

text \<open>
  Claim C5, as the code has it.  When no entry of the series converts to a number, the
  summary has count 0 and every other field absent: minimum, maximum, mean, median,
  percent above safe, hazard entries, and the trend as well (it is \<open>None\<close>, not
  \<open>no_change\<close>).
\<close>

theorem no_data_summary:
  "count_s (to_numeric series) = 0 \<Longrightarrow>
     analyze_pollutant series name thresholds_arg
       = \<lparr> n_measurements = 0, min_v = None, max_v = None, mean_v = None, median_v = None,
           percent_above_safe = None, hazard_entries = None, trend = None \<rparr>"
  by (simp add: analyze_pollutant_def Let_def)

theorem no_data_summary_witness:
  "count_s (to_numeric [PyNone, NonNumeric ''n/a'']) = 0
   \<and> analyze_pollutant [PyNone, NonNumeric ''n/a''] ''aqi'' None
       = \<lparr> n_measurements = 0, min_v = None, max_v = None, mean_v = None, median_v = None,
           percent_above_safe = None, hazard_entries = None, trend = None \<rparr>"
proof -
  have c: "count_s (to_numeric [PyNone, NonNumeric ''n/a'']) = 0"
    by (simp add: count_s_def to_numeric_def dropna_def isnan_def)
  from no_data_summary[OF c, of "''aqi''" None] c show ?thesis by blast
qed

text \<open>The claim as stated fails: on a series without a number the trend field is
  absent, not \<open>no_change\<close>.\<close>

theorem trend_no_data_counterexample:
  "count_s (to_numeric [PyNone, NonNumeric ''n/a'']) = 0
   \<and> trend (analyze_pollutant [PyNone, NonNumeric ''n/a''] ''aqi'' None) \<noteq> Some ''no_change''"
  by (simp add: analyze_pollutant_def Let_def count_s_def to_numeric_def dropna_def isnan_def)



text \<open>
  Claim C7.  \<open>_count_hazard_entries\<close> counts the rising edges of the series against
  the hazard threshold: the positions whose value is above the threshold while the
  previous value is at or below it, a missing value (and the value before the first
  position) counting as minus infinity.  That number is the \<open>hazard_entries\<close> field of
  the summary.  On the series 0, 0, 600, 600, 600, 0, 600 with threshold 500 it is 2,
  while 4 samples are above the threshold.
\<close>

theorem hazard_entries_rising_edges:
  "count_hazard_entries series hazard = rising_edges series hazard
   \<and> (count_s (to_numeric raw) \<noteq> 0 \<longrightarrow> t ''hazard'' = Some h \<longrightarrow> \<not> isnan h \<longrightarrow>
        hazard_entries (analyze_pollutant raw name (Some t))
          = Some (rising_edges (to_numeric raw) h))
   \<and> count_hazard_entries (map Fin [0, 0, 600, 600, 600, 0, 600]) (Fin 500) = 2
   \<and> length (filter (\<lambda>x. flt (Fin 500) x) (map Fin [0, 0, 600, 600, 600, 0, 600])) = 4"
proof -
  have a: "count_hazard_entries series hazard = rising_edges series hazard"
    by (rule count_hazard_entries_rising)
  have b: "count_s (to_numeric raw) \<noteq> 0 \<longrightarrow> t ''hazard'' = Some h \<longrightarrow> \<not> isnan h \<longrightarrow>
        hazard_entries (analyze_pollutant raw name (Some t))
          = Some (rising_edges (to_numeric raw) h)"
    by (simp add: analyze_pollutant_some(2) usable_def count_hazard_entries_rising)
  have c: "count_hazard_entries (map Fin [0, 0, 600, 600, 600, 0, 600]) (Fin 500) = 2"
    by (simp add: count_hazard_entries_def fillna_def isnan_def shift1_def Let_def)
  have d: "length (filter (\<lambda>x. flt (Fin 500) x) (map Fin [0, 0, 600, 600, 600, 0, 600])) = 4"
    by simp
  from a b c d show ?thesis by blast
qed

theorem hazard_entries_rising_edges_witness:
  "count_s (to_numeric [Numeric (Fin 0) ''0'', PyNone, Numeric (Fin 600) ''600'',
                        Numeric (Fin 600) ''600'', Numeric (Fin 0) ''0'',
                        Numeric (Fin 600) ''600'']) \<noteq> 0
   \<and> hazard_entries
        (analyze_pollutant [Numeric (Fin 0) ''0'', PyNone, Numeric (Fin 600) ''600'',
                            Numeric (Fin 600) ''600'', Numeric (Fin 0) ''0'',
                            Numeric (Fin 600) ''600'']
           ''so2'' (Some (map_of [(''safe'', Fin 20), (''hazard'', Fin 500)])))
      = Some 2"
proof -
  let ?raw = "[Numeric (Fin 0) ''0'', PyNone, Numeric (Fin 600) ''600'',
               Numeric (Fin 600) ''600'', Numeric (Fin 0) ''0'', Numeric (Fin 600) ''600'']"
  let ?t = "map_of [(''safe'', Fin 20), (''hazard'', Fin 500)]"
  have n: "count_s (to_numeric ?raw) \<noteq> 0"
    by (simp add: count_s_def to_numeric_def dropna_def isnan_def)
  have "count_hazard_entries (to_numeric ?raw) (Fin 500) = rising_edges (to_numeric ?raw) (Fin 500)"
    using hazard_entries_rising_edges[of "to_numeric ?raw" "Fin 500"] by blast
  moreover have "count_hazard_entries (to_numeric ?raw) (Fin 500) = 2"
    by (simp add: count_hazard_entries_def to_numeric_def fillna_def isnan_def shift1_def Let_def)
  ultimately have e: "rising_edges (to_numeric ?raw) (Fin 500) = 2" by simp
  have "hazard_entries (analyze_pollutant ?raw ''so2'' (Some ?t))
          = Some (rising_edges (to_numeric ?raw) (Fin 500))"
    using hazard_entries_rising_edges[of _ _ ?raw ?t "Fin 500" "''so2''"] n
    by (simp add: isnan_def)
  with n e show ?thesis by simp
qed

text \<open>
  Claim C8.  For a series with at least one entry that converts to a number, and a
  safe threshold that is given (explicitly, or by the default table for the pollutant)
  and is not NaN, \<open>percent_above_safe\<close> is the number of entries that are numbers, not
  missing and strictly above the threshold, divided by the length of the whole series
  (missing entries included), times 100.
\<close>

theorem percent_above_safe_denominator:
  assumes "count_s (to_numeric series) \<noteq> 0"
    and "thresholds_arg = Some t \<or> (thresholds_arg = None \<and> DEFAULT_THRESHOLDS name = Some t)"
    and "t ''safe'' = Some th" and "\<not> isnan th"
  shows "percent_above_safe (analyze_pollutant series name thresholds_arg)
           = Some (Fin (of_nat (length (filter (exceeds th) series))
                        / of_nat (length series) * 100))"
proof -
  have d: "dropna (to_numeric series) \<noteq> []"
    using assms(1) by (simp add: count_s_def)
  have "percent_above_safe (analyze_pollutant series name thresholds_arg)
          = map_option (safe_count (to_numeric series)) (usable (t ''safe''))"
    using assms(2) analyze_pollutant_some(1)[OF assms(1)] analyze_pollutant_default[OF assms(1)]
    by auto
  also have "\<dots> = Some (safe_count (to_numeric series) th)"
    using assms(3,4) by (simp add: usable_def)
  also have "safe_count (to_numeric series) th
      = Fin (of_nat (length (filter (\<lambda>x. flt th x) (to_numeric series)))
             / of_nat (length (to_numeric series)) * 100)"
    using d by (simp add: safe_count_def)
  also have "\<dots> = Fin (of_nat (length (filter (exceeds th) series))
                        / of_nat (length series) * 100)"
    by (simp only: count_above_raw) (simp add: to_numeric_def)
  finally show ?thesis .
qed

theorem percent_above_safe_denominator_witness:
  "count_s (to_numeric [Numeric (Fin 10) ''10'', PyNone, Numeric (Fin 60) ''60'',
                        NonNumeric ''x'']) \<noteq> 0
   \<and> DEFAULT_THRESHOLDS ''aqi'' = Some (map_of [(''safe'', Fin 50), (''hazard'', Fin 200)])
   \<and> percent_above_safe
        (analyze_pollutant [Numeric (Fin 10) ''10'', PyNone, Numeric (Fin 60) ''60'',
                            NonNumeric ''x''] ''aqi'' None)
      = Some (Fin 25)"
proof -
  let ?s = "[Numeric (Fin 10) ''10'', PyNone, Numeric (Fin 60) ''60'', NonNumeric ''x'']"
  let ?t = "map_of [(''safe'', Fin 50), (''hazard'', Fin 200)]"
  have n: "count_s (to_numeric ?s) \<noteq> 0"
    by (simp add: count_s_def to_numeric_def dropna_def isnan_def)
  have dt: "DEFAULT_THRESHOLDS ''aqi'' = Some ?t"
    by (simp add: DEFAULT_THRESHOLDS_def)
  have th: "?t ''safe'' = Some (Fin 50)" by simp
  have nn: "\<not> isnan (Fin 50)" by (simp add: isnan_def)
  have "percent_above_safe (analyze_pollutant ?s ''aqi'' None)
          = Some (Fin (of_nat (length (filter (exceeds (Fin 50)) ?s)) / of_nat (length ?s) * 100))"
    using percent_above_safe_denominator[of ?s None ?t "''aqi''" "Fin 50"] n dt th nn by blast
  then have "percent_above_safe (analyze_pollutant ?s ''aqi'' None) = Some (Fin 25)"
    by (simp add: exceeds_def isnan_def)
  with n dt show ?thesis by blast
qed

section \<open>Properties of the city history aggregator\<close>

lemma interpret_rows_returns:
  "\<forall>r\<in>set rows. finite_reading (r_aqi r) \<Longrightarrow>
     \<exists>outs. interpret_rows rows = Inr outs \<and> length outs = length rows"
proof (induction rows)
  case Nil
  then show ?case by simp
next
  case (Cons r rows)
  then obtain outs where "interpret_rows rows = Inr outs" "length outs = length rows"
    by auto
  moreover have "finite_reading (r_aqi r)" using Cons.prems by simp
  then obtain out where "apply_interpret_row r = Inr out"
    unfolding apply_interpret_row_def using interpret_returns by blast
  ultimately show ?case by simp
qed

lemma driver_of_returns: "finite_reading (r_aqi r) \<Longrightarrow> \<exists>d. driver_of r = Inr d"
  using aqi_to_level_finite[of "r_aqi r"] by (auto simp: driver_of_def Let_def)

lemma drivers_of_returns:
  "\<forall>r\<in>set rows. finite_reading (r_aqi r) \<Longrightarrow> \<exists>ds. drivers_of rows = Inr ds"
proof (induction rows)
  case Nil
  then show ?case by simp
next
  case (Cons r rows)
  then obtain ds where "drivers_of rows = Inr ds" by auto
  moreover obtain d where "driver_of r = Inr d"
    using Cons.prems driver_of_returns[of r] by auto
  ultimately show ?case by simp
qed

lemma choose_earliest_mem:
  "choose_earliest cs chosen = Some c \<Longrightarrow> c \<in> set cs \<or> chosen = Some c"
  by (induction cs arbitrary: chosen) (auto split: option.splits if_splits)

lemma worst_entry_of_returns:
  assumes "\<forall>e\<in>set entries. finite_reading (r_aqi (fst e))"
  shows "\<exists>w. worst_entry_of entries = Inr w"
proof (cases "entries = []")
  case True
  then show ?thesis by (simp add: worst_entry_of_def)
next
  case False
  let ?m = "foldl max 0 (map (\<lambda>e. score (snd e)) entries)"
  let ?cands = "filter (\<lambda>e. score (snd e) = ?m) entries"
  show ?thesis
  proof (cases "choose_earliest ?cands None")
    case None
    then show ?thesis using False by (simp add: worst_entry_of_def Let_def)
  next
    case (Some c)
    then have "c \<in> set entries" using choose_earliest_mem[of ?cands None c] by auto
    then obtain d where "driver_of (fst c) = Inr d"
      using assms driver_of_returns by blast
    then show ?thesis
      using False Some by (cases c) (simp add: worst_entry_of_def Let_def)
  qed
qed

lemma analyze_returns:
  assumes "\<forall>r\<in>set (retained (city_rows cty df)). finite_reading (r_aqi r)"
  shows "\<exists>out. analyze_city_from_csv cty df = Inr out"
proof -
  let ?rows = "retained (city_rows cty df)"
  obtain outs where o: "interpret_rows ?rows = Inr outs"
    using interpret_rows_returns[OF assms] by blast
  obtain ds where d: "drivers_of ?rows = Inr ds"
    using drivers_of_returns[OF assms] by blast
  have "\<forall>e\<in>set (zip ?rows outs). finite_reading (r_aqi (fst e))"
    using assms by (auto dest: set_zip_leftD)
  then obtain w where w: "worst_entry_of (zip ?rows outs) = Inr w"
    using worst_entry_of_returns by blast
  show ?thesis
    by (simp add: analyze_city_from_csv_def Let_def o d w)
qed

lemma analyze_counts:
  "analyze_city_from_csv cty df = Inr out \<Longrightarrow>
     dropped_rows out = count_dropped (city_rows cty df)
     \<and> total_measurements out = length (retained (city_rows cty df))"
  by (auto simp: analyze_city_from_csv_def Let_def split: sum.splits)

text \<open>
  A kept row whose primary cell is empty reaches \<open>interpret\<close> as NaN (the row loop does
  not turn NaN into \<open>None\<close>), and the whole analysis ends with the ValueError of
  \<open>int(round(a))\<close>.
\<close>

lemma analysis_raises_on_missing_aqi:
  "analyze_city_from_csv ''Oslo'' [row_complete \<lparr> r_aqi := Numeric NaN ''nan'' \<rparr>]
     = Inl ValueError"
  by (simp add: analyze_city_from_csv_def city_rows_def retained_def mask_missing_def
      row_complete_def isna_def isnan_def apply_interpret_row_def interpret_py_def
      aqi_float_to_level_def reason_strings_def aqi_reason_def aqi_part_def Let_def)

text \<open>
  Claim C3, as the code has it.  A row of the city is kept exactly when it has a
  parseable timestamp and at least one of the two readings is present; every other
  row is dropped, so kept and dropped rows add up to the rows of the city.  When every
  kept row has a primary reading that is absent, non-numeric or finite the analysis
  returns, and whenever it returns the summary records the number of dropped rows and
  the number of kept rows.
\<close>

theorem retained_rows_rule:
  "(r \<in> set (retained (city_rows cty df)) \<longleftrightarrow>
        r \<in> set df \<and> r_city r = cty \<and> r_timestamp r \<noteq> None
        \<and> (\<not> isna (r_aqi r) \<or> \<not> isna (r_pm2_5 r)))
   \<and> count_dropped (city_rows cty df) + length (retained (city_rows cty df))
        = length (city_rows cty df)
   \<and> ((\<forall>r\<in>set (retained (city_rows cty df)). finite_reading (r_aqi r)) \<longrightarrow>
          (\<exists>out. analyze_city_from_csv cty df = Inr out))
   \<and> (\<forall>out. analyze_city_from_csv cty df = Inr out \<longrightarrow>
          dropped_rows out = count_dropped (city_rows cty df)
          \<and> total_measurements out = length (retained (city_rows cty df)))"
proof -
  have a: "r \<in> set (retained (city_rows cty df)) \<longleftrightarrow>
        r \<in> set df \<and> r_city r = cty \<and> r_timestamp r \<noteq> None
        \<and> (\<not> isna (r_aqi r) \<or> \<not> isna (r_pm2_5 r))"
    by (auto simp: retained_def city_rows_def mask_missing_def)
  have b: "count_dropped (city_rows cty df) + length (retained (city_rows cty df))
        = length (city_rows cty df)"
    unfolding count_dropped_def retained_def by (rule sum_length_filter_compl)
  have c: "(\<forall>r\<in>set (retained (city_rows cty df)). finite_reading (r_aqi r)) \<longrightarrow>
          (\<exists>out. analyze_city_from_csv cty df = Inr out)"
    using analyze_returns by blast
  have d: "\<forall>out. analyze_city_from_csv cty df = Inr out \<longrightarrow>
          dropped_rows out = count_dropped (city_rows cty df)
          \<and> total_measurements out = length (retained (city_rows cty df))"
    using analyze_counts by blast
  from a b c d show ?thesis by blast
qed

theorem retained_rows_rule_witness:
  "retained (city_rows ''Oslo'' [row_without_readings, row_complete, row_without_timestamp])
     = [row_complete]
   \<and> (\<exists>out. analyze_city_from_csv ''Oslo''
                [row_without_readings, row_complete, row_without_timestamp] = Inr out
          \<and> dropped_rows out = 2 \<and> total_measurements out = 1)"
proof -
  let ?df = "[row_without_readings, row_complete, row_without_timestamp]"
  have r: "retained (city_rows ''Oslo'' ?df) = [row_complete]"
    by (simp add: retained_def city_rows_def mask_missing_def row_without_readings_def
        row_complete_def row_without_timestamp_def isna_def isnan_def)
  have c: "count_dropped (city_rows ''Oslo'' ?df) = 2"
    by (simp add: count_dropped_def city_rows_def mask_missing_def row_without_readings_def
        row_complete_def row_without_timestamp_def isna_def isnan_def)
  have f: "\<forall>r\<in>set (retained (city_rows ''Oslo'' ?df)). finite_reading (r_aqi r)"
    unfolding r by (simp add: row_complete_def finite_reading_def isfinite_def)
  from retained_rows_rule[of row_complete "''Oslo''" ?df] f r c
  show ?thesis by auto
qed

text \<open>The claim as stated fails: a row with a timestamp and no reading is dropped, and
  so is a row with a reading and no timestamp.\<close>

theorem retained_rows_counterexample:
  "r_timestamp row_without_readings \<noteq> None
   \<and> retained (city_rows ''Oslo'' [row_without_readings]) = []
   \<and> \<not> isna (r_aqi row_without_timestamp)
   \<and> retained (city_rows ''Oslo'' [row_without_timestamp]) = []
   \<and> map_sum id dropped_rows
        (analyze_city_from_csv ''Oslo'' [row_without_readings, row_without_timestamp]) = Inr 2"
  by (simp add: retained_def city_rows_def mask_missing_def row_without_readings_def
      row_without_timestamp_def isna_def isnan_def analyze_city_from_csv_def count_dropped_def
      worst_entry_of_def Let_def)

text \<open>
  Claim C10.  When no row of the city is kept (in particular when the table has no row
  of the city at all) the analysis returns a summary with zero measurements, no period
  start, no period end, no worst moment, an empty distribution, and the fallback
  sentence, which is not empty and contains the name of the city.
\<close>

theorem empty_observation_set:
  assumes "retained (city_rows cty df) = []"
  shows "\<exists>out. analyze_city_from_csv cty df = Inr out
           \<and> total_measurements out = 0
           \<and> dropped_rows out = length (city_rows cty df)
           \<and> period_start out = None \<and> period_end out = None
           \<and> worst_moment out = None
           \<and> distribution out = []
           \<and> moderate_or_worse_share_pct out = 0 \<and> unhealthy_or_worse_share_pct out = 0
           \<and> summary out = ''No valid measurements for '' @ cty @ '' in the provided file.''
           \<and> summary out \<noteq> []
           \<and> sublist cty (summary out)"
proof -
  have d: "count_dropped (city_rows cty df) = length (city_rows cty df)"
    using sum_length_filter_compl[of mask_missing "city_rows cty df"] assms
    by (simp add: count_dropped_def retained_def)
  have s: "sublist cty (''No valid measurements for '' @ cty @ '' in the provided file.'')"
    unfolding sublist_def by blast
  show ?thesis
    using s
    by (simp add: analyze_city_from_csv_def Let_def assms d worst_entry_of_def counter_def
        count_in_def pct_of_def summary_text_def)
qed

theorem empty_observation_set_witness:
  "retained (city_rows ''Oslo'' []) = []
   \<and> (\<exists>out. analyze_city_from_csv ''Oslo'' [] = Inr out
          \<and> total_measurements out = 0 \<and> worst_moment out = None
          \<and> period_start out = None \<and> period_end out = None
          \<and> summary out = ''No valid measurements for Oslo in the provided file.'')"
proof -
  have e: "retained (city_rows ''Oslo'' []) = []"
    by (simp add: retained_def city_rows_def)
  from empty_observation_set[OF e] e show ?thesis by auto
qed

end
